theory Spec2Isabelle
  imports Complex_Main
begin

section \<open>JavaScript numbers\<close>

text \<open>
  The dashboard in \<^verbatim>\<open>anova.jsx\<close> computes with JavaScript numbers. A number is
  modelled as a finite real or one of the three special values of IEEE 754. The special
  values follow the ECMAScript rules exactly; on finite operands the arithmetic is exact
  (rounding to the nearest double, and overflow of a finite result to an infinity, are
  not modelled). The two zeros \<open>+0\<close> and \<open>-0\<close>, which JavaScript compares as equal, are
  one value \<open>Fin 0\<close>: every divisor in the functions below is a length, a square root,
  a sum of squares or a quotient or power of such, and \<^verbatim>\<open>Math.pow\<close> is applied with the
  exponent 2 or to a base that is at least 1, so the sign of a zero is never observed.
\<close>

datatype jsnum = Fin real | PInf | NInf | NaN

fun isNaN :: "jsnum \<Rightarrow> bool" where
  "isNaN NaN = True"
| "isNaN _ = False"

fun isFinite :: "jsnum \<Rightarrow> bool" where
  "isFinite (Fin _) = True"
| "isFinite _ = False"

fun js_neg :: "jsnum \<Rightarrow> jsnum" where
  "js_neg (Fin a) = Fin (- a)"
| "js_neg PInf = NInf"
| "js_neg NInf = PInf"
| "js_neg NaN = NaN"

fun js_add :: "jsnum \<Rightarrow> jsnum \<Rightarrow> jsnum" where
  "js_add (Fin a) (Fin b) = Fin (a + b)"
| "js_add NaN _ = NaN"
| "js_add _ NaN = NaN"
| "js_add PInf NInf = NaN"
| "js_add NInf PInf = NaN"
| "js_add PInf _ = PInf"
| "js_add _ PInf = PInf"
| "js_add NInf _ = NInf"
| "js_add _ NInf = NInf"

definition js_sub :: "jsnum \<Rightarrow> jsnum \<Rightarrow> jsnum" where
  "js_sub a b = js_add a (js_neg b)"

fun js_mul :: "jsnum \<Rightarrow> jsnum \<Rightarrow> jsnum" where
  "js_mul (Fin a) (Fin b) = Fin (a * b)"
| "js_mul NaN _ = NaN"
| "js_mul _ NaN = NaN"
| "js_mul (Fin a) PInf = (if a = 0 then NaN else if 0 < a then PInf else NInf)"
| "js_mul (Fin a) NInf = (if a = 0 then NaN else if 0 < a then NInf else PInf)"
| "js_mul PInf (Fin b) = (if b = 0 then NaN else if 0 < b then PInf else NInf)"
| "js_mul NInf (Fin b) = (if b = 0 then NaN else if 0 < b then NInf else PInf)"
| "js_mul PInf PInf = PInf"
| "js_mul PInf NInf = NInf"
| "js_mul NInf PInf = NInf"
| "js_mul NInf NInf = PInf"

fun js_div :: "jsnum \<Rightarrow> jsnum \<Rightarrow> jsnum" where
  "js_div (Fin a) (Fin b) =
     (if b = 0 then (if a = 0 then NaN else if 0 < a then PInf else NInf)
      else Fin (a / b))"
| "js_div NaN _ = NaN"
| "js_div _ NaN = NaN"
| "js_div (Fin a) PInf = Fin 0"
| "js_div (Fin a) NInf = Fin 0"
| "js_div PInf (Fin b) = (if 0 \<le> b then PInf else NInf)"
| "js_div NInf (Fin b) = (if 0 \<le> b then NInf else PInf)"
| "js_div PInf PInf = NaN"
| "js_div PInf NInf = NaN"
| "js_div NInf PInf = NaN"
| "js_div NInf NInf = NaN"

text \<open>\<^verbatim>\<open>Math.abs\<close> and \<^verbatim>\<open>Math.sqrt\<close>.\<close>

fun js_abs :: "jsnum \<Rightarrow> jsnum" where
  "js_abs (Fin a) = Fin \<bar>a\<bar>"
| "js_abs PInf = PInf"
| "js_abs NInf = PInf"
| "js_abs NaN = NaN"

fun js_sqrt :: "jsnum \<Rightarrow> jsnum" where
  "js_sqrt (Fin a) = (if a < 0 then NaN else Fin (sqrt a))"
| "js_sqrt PInf = PInf"
| "js_sqrt NInf = NaN"
| "js_sqrt NaN = NaN"

text \<open>
  \<^verbatim>\<open>Math.pow(base, exponent)\<close>, in the case order of ECMAScript's
  \<open>Number::exponentiate\<close>: a NaN exponent, a zero exponent, a NaN base, an infinite
  base, a zero base, an infinite exponent, and last the finite case, where a negative
  base has a power only for an integral exponent.
\<close>

definition is_odd_integer :: "real \<Rightarrow> bool" where
  "is_odd_integer e \<longleftrightarrow> e = of_int \<lfloor>e\<rfloor> \<and> odd \<lfloor>e\<rfloor>"

fun js_pow :: "jsnum \<Rightarrow> jsnum \<Rightarrow> jsnum" where
  "js_pow _ NaN = NaN"
| "js_pow b (Fin e) =
     (if e = 0 then Fin 1
      else case b of
        NaN \<Rightarrow> NaN
      | PInf \<Rightarrow> (if 0 < e then PInf else Fin 0)
      | NInf \<Rightarrow> (if 0 < e then (if is_odd_integer e then NInf else PInf) else Fin 0)
      | Fin a \<Rightarrow>
          (if a = 0 then (if 0 < e then Fin 0 else PInf)
           else if 0 < a then Fin (a powr e)
           else if e = of_int \<lfloor>e\<rfloor>
             then Fin (if even \<lfloor>e\<rfloor> then \<bar>a\<bar> powr e else - (\<bar>a\<bar> powr e))
           else NaN))"
| "js_pow b PInf =
     (case b of
        NaN \<Rightarrow> NaN
      | PInf \<Rightarrow> PInf
      | NInf \<Rightarrow> PInf
      | Fin a \<Rightarrow>
          (if a = 0 then Fin 0
           else if 1 < \<bar>a\<bar> then PInf else if \<bar>a\<bar> = 1 then NaN else Fin 0))"
| "js_pow b NInf =
     (case b of
        NaN \<Rightarrow> NaN
      | PInf \<Rightarrow> Fin 0
      | NInf \<Rightarrow> Fin 0
      | Fin a \<Rightarrow>
          (if a = 0 then PInf
           else if 1 < \<bar>a\<bar> then Fin 0 else if \<bar>a\<bar> = 1 then NaN else PInf))"

text \<open>The relational operators \<^verbatim>\<open><\<close> and \<^verbatim>\<open><=\<close>: false as soon as an operand is NaN.\<close>

fun js_lt :: "jsnum \<Rightarrow> jsnum \<Rightarrow> bool" where
  "js_lt (Fin a) (Fin b) = (a < b)"
| "js_lt NaN _ = False"
| "js_lt _ NaN = False"
| "js_lt _ NInf = False"
| "js_lt PInf _ = False"
| "js_lt NInf _ = True"
| "js_lt _ PInf = True"


section \<open>Statistical utilities\<close>

text \<open>
  \<^verbatim>\<open>const calculateMean = (arr) => arr.reduce((a, b) => a + b, 0) / arr.length;\<close>
\<close>

definition calculateMean :: "jsnum list \<Rightarrow> jsnum" where
  "calculateMean arr =
     js_div (foldl (\<lambda>a b. js_add a b) (Fin 0) arr) (Fin (real (length arr)))"

text \<open>
  \<^verbatim>\<open>arr.reduce((a, b) => a + Math.pow(b - mean, 2), 0) / (arr.length - 1)\<close>
\<close>

definition calculateVariance :: "jsnum list \<Rightarrow> jsnum \<Rightarrow> jsnum" where
  "calculateVariance arr mean =
     js_div (foldl (\<lambda>a b. js_add a (js_pow (js_sub b mean) (Fin 2))) (Fin 0) arr)
            (Fin (real_of_int (int (length arr) - 1)))"

text \<open>
  The local constants of \<^verbatim>\<open>calculateStats\<close> past its guard, in the order the
  source binds them (field \<open>l_x\<close> holds the local \<open>x\<close>). \<open>df\<close> is computed and used
  for \<open>p\<close>, and is not part of what the function returns.
\<close>

record stats_locals =
  l_m1 :: jsnum
  l_m2 :: jsnum
  l_v1 :: jsnum
  l_v2 :: jsnum
  l_se :: jsnum
  l_t :: jsnum
  l_df :: jsnum
  l_p :: jsnum

definition calculateStats_locals :: "jsnum list \<Rightarrow> jsnum list \<Rightarrow> stats_locals" where
  "calculateStats_locals group1 group2 =
     (let n1 = Fin (real (length group1));
          n2 = Fin (real (length group2));
          m1 = calculateMean group1;
          m2 = calculateMean group2;
          v1 = calculateVariance group1 m1;
          v2 = calculateVariance group2 m2;
          se = js_sqrt (js_add (js_div v1 n1) (js_div v2 n2));
          t = js_abs (js_div (js_sub m1 m2) se);
          df = js_div (js_pow (js_add (js_div v1 n1) (js_div v2 n2)) (Fin 2))
                 (js_add (js_div (js_pow (js_div v1 n1) (Fin 2)) (js_sub n1 (Fin 1)))
                         (js_div (js_pow (js_div v2 n2) (Fin 2)) (js_sub n2 (Fin 1))));
          p = js_div (Fin 1)
                (js_pow (js_add (Fin 1) (js_div (js_mul t t) df))
                        (js_div (js_add df (Fin 1)) (Fin 2)))
      in \<lparr>l_m1 = m1, l_m2 = m2, l_v1 = v1, l_v2 = v2, l_se = se, l_t = t, l_df = df, l_p = p\<rparr>)"

text \<open>
  The object \<^verbatim>\<open>calculateStats\<close> returns, as the list of its properties in the order
  of the object literal: \<^verbatim>\<open>{ p: 1, t: 0 }\<close> when a group has fewer than two elements,
  \<^verbatim>\<open>{ t, p, m1, m2 }\<close> otherwise.
\<close>

type_synonym js_object = "(string \<times> jsnum) list"

definition calculateStats :: "jsnum list \<Rightarrow> jsnum list \<Rightarrow> js_object" where
  "calculateStats group1 group2 =
     (let n1 = length group1; n2 = length group2
      in if n1 < 2 \<or> n2 < 2 then [(''p'', Fin 1), (''t'', Fin 0)]
         else let L = calculateStats_locals group1 group2
              in [(''t'', l_t L), (''p'', l_p L), (''m1'', l_m1 L), (''m2'', l_m2 L)])"

text \<open>Reading a property: \<open>None\<close> is JavaScript's \<^verbatim>\<open>undefined\<close> for a missing one.\<close>

definition get_prop :: "js_object \<Rightarrow> string \<Rightarrow> jsnum option" where
  "get_prop obj name = map_of obj name"


subsection \<open>The formulas of the specification\<close>




text \<open>A sample that is not constant: two of its elements differ.\<close>

definition varies :: "jsnum list \<Rightarrow> bool" where
  "varies xs \<longleftrightarrow> (\<exists>x \<in> set xs. \<exists>y \<in> set xs. x \<noteq> y)"

text \<open>
  The mean and the Bessel-corrected variance of a list of reals, to state what the
  functions above compute on samples of finite numbers.
\<close>

definition rmean :: "real list \<Rightarrow> real" where
  "rmean rs = sum_list rs / real (length rs)"

definition rvar :: "real list \<Rightarrow> real" where
  "rvar rs = (\<Sum>x\<leftarrow>rs. (x - rmean rs)\<^sup>2) / (real (length rs) - 1)"

section \<open>Quartiles\<close>

text \<open>
  \<^verbatim>\<open>Array.prototype.sort\<close> with the comparator \<^verbatim>\<open>(a, b) => a - b\<close>. ECMAScript turns
  a NaN returned by the comparator into \<open>+0\<close>, and requires of the order only that it
  is sorted and stable when the comparator is consistent, which \<open>a - b\<close> is on arrays
  without NaN; the order for an inconsistent comparator is left to the implementation.
  The model is the stable insertion sort.
\<close>

definition sortCompare :: "jsnum \<Rightarrow> jsnum \<Rightarrow> jsnum" where
  "sortCompare a b = (let v = js_sub a b in if isNaN v then Fin 0 else v)"

fun sort_insert :: "jsnum \<Rightarrow> jsnum list \<Rightarrow> jsnum list" where
  "sort_insert x [] = [x]"
| "sort_insert x (y # ys) =
     (if js_lt (Fin 0) (sortCompare x y) then y # sort_insert x ys else x # y # ys)"

definition js_sort :: "jsnum list \<Rightarrow> jsnum list" where
  "js_sort xs = foldr sort_insert xs []"

text \<open>
  Reading \<^verbatim>\<open>arr[i]\<close>: \<open>None\<close> is \<^verbatim>\<open>undefined\<close>, the value of an index outside the
  array. An operand \<^verbatim>\<open>undefined\<close> of an arithmetic operator converts to NaN.
\<close>

definition js_at :: "'a list \<Rightarrow> int \<Rightarrow> 'a option" where
  "js_at arr i = (if 0 \<le> i \<and> i < int (length arr) then Some (arr ! nat i) else None)"

fun toNumber :: "jsnum option \<Rightarrow> jsnum" where
  "toNumber None = NaN"
| "toNumber (Some x) = x"

text \<open>
  The inner function \<^verbatim>\<open>getValue\<close> of \<^verbatim>\<open>getQuartiles\<close>, with the array
  \<^verbatim>\<open>sorted\<close> it closes over as the parameter \<open>sorted_data\<close>. \<open>pos\<close> is a product of
  a length and a constant, a finite number.
\<close>

definition getValue :: "jsnum list \<Rightarrow> real \<Rightarrow> jsnum" where
  "getValue sorted_data pos =
     (let base = \<lfloor>pos\<rfloor>;
          rest = pos - of_int base
      in if js_at sorted_data (base + 1) \<noteq> None
         then js_add (toNumber (js_at sorted_data base))
                (js_mul (Fin rest)
                   (js_sub (toNumber (js_at sorted_data (base + 1))) (toNumber (js_at sorted_data base))))
         else toNumber (js_at sorted_data base))"

record quartiles =
  min_q :: jsnum
  q1 :: jsnum
  median :: jsnum
  q3 :: jsnum
  max_q :: jsnum

text \<open>
  Arrays are objects: \<^verbatim>\<open>sort\<close> reorders the array it is called on, and the caller
  of \<^verbatim>\<open>getQuartiles\<close> keeps a reference to \<open>data\<close>. The store holds the arrays, a
  reference is an index into it, and \<open>None\<close> is a \<^verbatim>\<open>null\<close> or \<^verbatim>\<open>undefined\<close>
  argument. The spread \<^verbatim>\<open>[...data]\<close> allocates a new array with the elements of
  \<open>data\<close>; \<^verbatim>\<open>sort\<close> writes the elements back in order to the array it is given and
  returns the same reference.
\<close>

type_synonym store = "jsnum list list"

definition spread :: "store \<Rightarrow> nat \<Rightarrow> nat \<times> store" where
  "spread h r = (length h, h @ [h ! r])"

definition array_sort :: "store \<Rightarrow> nat \<Rightarrow> nat \<times> store" where
  "array_sort h r = (r, h[r := js_sort (h ! r)])"

definition getQuartiles :: "store \<Rightarrow> nat option \<Rightarrow> quartiles \<times> store" where
  "getQuartiles h data =
     (case data of
        None \<Rightarrow> (\<lparr>min_q = Fin 0, q1 = Fin 0, median = Fin 0, q3 = Fin 0, max_q = Fin 0\<rparr>, h)
      | Some d \<Rightarrow>
          if length (h ! d) = 0
          then (\<lparr>min_q = Fin 0, q1 = Fin 0, median = Fin 0, q3 = Fin 0, max_q = Fin 0\<rparr>, h)
          else
            let (c, h1) = spread h d;
                (s, h2) = array_sort h1 c;
                sorted_data = h2 ! s;
                q1Pos = real_of_int (int (length sorted_data) - 1) * 0.25;
                q3Pos = real_of_int (int (length sorted_data) - 1) * 0.75;
                medianPos = real_of_int (int (length sorted_data) - 1) * 0.5
            in (\<lparr>min_q = toNumber (js_at sorted_data 0),
                 q1 = getValue sorted_data q1Pos,
                 median = getValue sorted_data medianPos,
                 q3 = getValue sorted_data q3Pos,
                 max_q = toNumber (js_at sorted_data (int (length sorted_data) - 1))\<rparr>, h2))"


section \<open>Extracting the samples from the CSV text\<close>

text \<open>
  \<^verbatim>\<open>String.prototype.split\<close> with a one-character separator: the pieces between the
  separators, one more than there are separators (the empty string gives one empty piece).
\<close>

fun split :: "char \<Rightarrow> string \<Rightarrow> string list" where
  "split sep [] = [[]]"
| "split sep (c # cs) =
     (if c = sep then [] # split sep cs
      else case split sep cs of
             [] \<Rightarrow> [[c]]
           | w # ws \<Rightarrow> (c # w) # ws)"

text \<open>
  \<^verbatim>\<open>parseFloat\<close>, after ECMAScript: leading white space is dropped, the longest prefix
  that is a \<open>StrDecimalLiteral\<close> is read (an optional sign, then \<^verbatim>\<open>Infinity\<close> or
  digits with an optional fraction and an optional exponent), and the result is NaN when
  there is no such prefix. The value of the literal is exact here. Characters are
  bytes, so white space is the ASCII part of JavaScript's.
\<close>

definition isWhiteSpace :: "char \<Rightarrow> bool" where
  "isWhiteSpace c \<longleftrightarrow> c \<in> set [CHR 0x09, CHR 0x0A, CHR 0x0B, CHR 0x0C, CHR 0x0D, CHR 0x20]"

definition isDigit :: "char \<Rightarrow> bool" where
  "isDigit c \<longleftrightarrow> c \<in> set ''0123456789''"

definition digitValue :: "char \<Rightarrow> nat" where
  "digitValue c = of_char c - 48"

definition digitsValue :: "string \<Rightarrow> nat" where
  "digitsValue ds = foldl (\<lambda>a c. 10 * a + digitValue c) 0 ds"

definition signedInteger :: "string \<Rightarrow> int option" where
  "signedInteger s =
     (let (sgn, r) = (case s of
                        [] \<Rightarrow> (1, s)
                      | c # cs \<Rightarrow> if c = CHR ''+'' then (1, cs)
                                  else if c = CHR ''-'' then (- 1, cs) else (1, s));
          ds = takeWhile isDigit r
      in if ds = [] then None else Some (sgn * int (digitsValue ds)))"

definition exponentPart :: "string \<Rightarrow> int" where
  "exponentPart s =
     (case s of
        [] \<Rightarrow> 0
      | c # cs \<Rightarrow> if c = CHR ''e'' \<or> c = CHR ''E''
                  then (case signedInteger cs of None \<Rightarrow> 0 | Some k \<Rightarrow> k)
                  else 0)"

definition scale10 :: "real \<Rightarrow> int \<Rightarrow> real" where
  "scale10 m k = (if 0 \<le> k then m * 10 ^ nat k else m / 10 ^ nat (- k))"

definition strUnsignedDecimalLiteral :: "string \<Rightarrow> jsnum" where
  "strUnsignedDecimalLiteral s =
     (if take 8 s = ''Infinity'' then PInf
      else
        let ip = takeWhile isDigit s;
            r1 = dropWhile isDigit s;
            has_dot = (case r1 of [] \<Rightarrow> False | c # _ \<Rightarrow> c = CHR ''.'');
            fp = (if has_dot then takeWhile isDigit (tl r1) else []);
            r2 = (if has_dot then dropWhile isDigit (tl r1) else r1)
        in if ip = [] \<and> fp = [] then NaN
           else Fin (scale10 (real (digitsValue (ip @ fp)))
                             (exponentPart r2 - int (length fp))))"

definition parseFloat :: "string \<Rightarrow> jsnum" where
  "parseFloat inputString =
     (let trimmed = dropWhile isWhiteSpace inputString
      in case trimmed of
           [] \<Rightarrow> NaN
         | c # cs \<Rightarrow> if c = CHR ''+'' then strUnsignedDecimalLiteral cs
                     else if c = CHR ''-'' then js_neg (strUnsignedDecimalLiteral cs)
                     else strUnsignedDecimalLiteral trimmed)"

text \<open>
  \<^verbatim>\<open>parseFloat\<close> converts its argument to a string first; \<^verbatim>\<open>row[idx]\<close> beyond the
  end of the row is \<^verbatim>\<open>undefined\<close>, whose string is \<^verbatim>\<open>"undefined"\<close>.
\<close>

fun toString :: "string option \<Rightarrow> string" where
  "toString None = ''undefined''"
| "toString (Some s) = s"

text \<open>
  \<^verbatim>\<open>const parseVal = (val) => { const num = parseFloat(val); return isNaN(num) ? null : num; }\<close>
  with \<open>None\<close> for \<^verbatim>\<open>null\<close>.
\<close>

definition parseVal :: "string option \<Rightarrow> jsnum option" where
  "parseVal val = (let num = parseFloat (toString val) in if isNaN num then None else Some num)"

text \<open>
  The object \<^verbatim>\<open>parsed\<close> has the five metric names as its keys, and \<^verbatim>\<open>addData\<close> is
  called with these five literals only: the keys are a datatype and the object is a total
  function on it.
\<close>

datatype metric = Ball_Size | Ball_Thickness | Loop_Height | Edge_Height | BPT

record metric_data =
  group1 :: "jsnum list"
  group2 :: "jsnum list"
  unit_of :: string

type_synonym parsed = "metric \<Rightarrow> metric_data"

definition initial_parsed :: parsed where
  "initial_parsed m =
     (case m of
        BPT \<Rightarrow> \<lparr>group1 = [], group2 = [], unit_of = ''g''\<rparr>
      | _ \<Rightarrow> \<lparr>group1 = [], group2 = [], unit_of = ''um''\<rparr>)"

definition addData :: "string list \<Rightarrow> parsed \<Rightarrow> metric \<Rightarrow> int \<Rightarrow> int \<Rightarrow> parsed" where
  "addData row parsed m idx1 idx2 =
     (let v1 = parseVal (js_at row idx1);
          v2 = parseVal (js_at row idx2);
          parsed1 = (case v1 of
                       None \<Rightarrow> parsed
                     | Some x \<Rightarrow> parsed(m := (parsed m)\<lparr>group1 := group1 (parsed m) @ [x]\<rparr>))
      in case v2 of
           None \<Rightarrow> parsed1
         | Some y \<Rightarrow> parsed1(m := (parsed1 m)\<lparr>group2 := group2 (parsed1 m) @ [y]\<rparr>))"

text \<open>The body of the loop over the lines, for one line.\<close>

definition parse_line :: "parsed \<Rightarrow> string \<Rightarrow> parsed" where
  "parse_line parsed line =
     (let row = split CHR '','' line
      in if length row < 10 then parsed
         else
           let parsed = addData row parsed Ball_Size 1 2;
               parsed = addData row parsed Ball_Thickness 3 4;
               parsed = addData row parsed Loop_Height 5 6;
               parsed = addData row parsed Edge_Height 7 8;
               parsed = addData row parsed BPT 10 11
           in parsed)"

text \<open>
  \<^verbatim>\<open>parseCSV\<close>: the lines from index 5 on, in order. What it passes to
  \<^verbatim>\<open>setMetricsData\<close> is its result here.
\<close>

definition parseCSV :: "string \<Rightarrow> parsed" where
  "parseCSV csvText = foldl parse_line initial_parsed (drop 5 (split CHR 0x0A csvText))"

text \<open>The column table of the specification (section 4.1): column A and column B of a metric.\<close>

fun columnA :: "metric \<Rightarrow> int" where
  "columnA Ball_Size = 1"
| "columnA Ball_Thickness = 3"
| "columnA Loop_Height = 5"
| "columnA Edge_Height = 7"
| "columnA BPT = 10"

fun columnB :: "metric \<Rightarrow> int" where
  "columnB Ball_Size = 2"
| "columnB Ball_Thickness = 4"
| "columnB Loop_Height = 6"
| "columnB Edge_Height = 8"
| "columnB BPT = 11"

text \<open>What a parsed cell adds to a sample: its value, or nothing.\<close>

fun contribution :: "jsnum option \<Rightarrow> jsnum list" where
  "contribution None = []"
| "contribution (Some x) = [x]"

section \<open>Properties of the arithmetic\<close>

text \<open>
  The equation of \<open>js_pow\<close> for a finite exponent is a large case distinction: it is
  unfolded where a proof needs it.
\<close>

declare js_pow.simps [simp del]

lemma js_add_NaN_right [simp]: "js_add x NaN = NaN"
  by (cases x) simp_all

lemma js_mul_NaN_right [simp]: "js_mul x NaN = NaN"
  by (cases x) simp_all

lemma js_div_NaN_right [simp]: "js_div x NaN = NaN"
  by (cases x) simp_all

lemma js_add_commute: "js_add a b = js_add b a"
  by (cases a; cases b) simp_all

lemma js_neg_add: "js_neg (js_add a b) = js_add (js_neg a) (js_neg b)"
  by (cases a; cases b) simp_all

lemma js_neg_neg [simp]: "js_neg (js_neg a) = a"
  by (cases a) simp_all

lemma js_sub_swap: "js_sub b a = js_neg (js_sub a b)"
  by (simp add: js_sub_def js_neg_add js_add_commute)

lemma js_div_neg: "js_div (js_neg a) b = js_neg (js_div a b)"
  by (cases a; cases b) auto

lemma js_abs_neg [simp]: "js_abs (js_neg a) = js_abs a"
  by (cases a) simp_all

section \<open>The two-sample test\<close>

lemma l_t_swap: "l_t (calculateStats_locals b a) = l_t (calculateStats_locals a b)"
proof -
  have "js_abs (js_div (js_sub y x) s) = js_abs (js_div (js_sub x y) s)" for x y s
    by (simp add: js_sub_swap [of x y] js_div_neg)
  then show ?thesis
    by (simp add: calculateStats_locals_def Let_def js_add_commute)
qed

lemma l_df_swap: "l_df (calculateStats_locals b a) = l_df (calculateStats_locals a b)"
  by (simp add: calculateStats_locals_def Let_def js_add_commute)

lemma l_p_eq: "l_p (calculateStats_locals a b) =
  js_div (Fin 1)
    (js_pow (js_add (Fin 1) (js_div (js_mul (l_t (calculateStats_locals a b)) (l_t (calculateStats_locals a b)))
                                         (l_df (calculateStats_locals a b))))
            (js_div (js_add (l_df (calculateStats_locals a b)) (Fin 1)) (Fin 2)))"
  by (simp add: calculateStats_locals_def Let_def)

lemma l_p_swap: "l_p (calculateStats_locals b a) = l_p (calculateStats_locals a b)"
  by (simp add: l_p_eq l_t_swap [of b a] l_df_swap [of b a])

text \<open>
  C6: swapping the two samples changes neither the t-statistic nor the p-value of the
  result, for any two arrays of numbers (short ones, and ones holding NaN or an infinity,
  included). Where a field is NaN on one side it is NaN on the other: equality here is
  identity of the value, not JavaScript's \<^verbatim>\<open>===\<close>.
\<close>

theorem calculateStats_symmetric:
  "get_prop (calculateStats a b) ''t'' = get_prop (calculateStats b a) ''t''
   \<and> get_prop (calculateStats a b) ''p'' = get_prop (calculateStats b a) ''p''"
  by (simp add: calculateStats_def get_prop_def Let_def l_t_swap [of b a] l_p_swap [of b a] disj_commute)


theorem calculateStats_symmetric_witness:
  "get_prop (calculateStats [Fin 1, Fin 3] [Fin 2, Fin 6, Fin 4]) ''t''
     = get_prop (calculateStats [Fin 2, Fin 6, Fin 4] [Fin 1, Fin 3]) ''t''
   \<and> get_prop (calculateStats [Fin 1, Fin 3] [Fin 2, Fin 6, Fin 4]) ''p''
     = get_prop (calculateStats [Fin 2, Fin 6, Fin 4] [Fin 1, Fin 3]) ''p''"
  by (rule calculateStats_symmetric)

lemma nn_abs: "\<not> js_lt (js_abs x) (Fin 0)"
  by (cases x) simp_all


lemma js_pow_two: "js_pow (Fin a) (Fin 2) = Fin (a\<^sup>2)"
proof -
  have "\<bar>a\<bar> powr 2 = a\<^sup>2"
    by simp
  moreover have "0 < a \<Longrightarrow> a powr 2 = a\<^sup>2"
    by simp
  ultimately show ?thesis
    by (simp add: js_pow.simps)
qed












lemma nn_l_t: "\<not> js_lt (l_t (calculateStats_locals a b)) (Fin 0)"
  by (simp add: calculateStats_locals_def Let_def nn_abs)






section \<open>Samples of finite numbers\<close>

lemma finite_sample: "list_all isFinite xs \<Longrightarrow> \<exists>rs. xs = map Fin rs"
proof (induction xs)
  case Nil
  then show ?case by simp
next
  case (Cons x xs)
  then obtain rs where "xs = map Fin rs" by auto
  moreover from Cons.prems obtain r where "x = Fin r" by (cases x) simp_all
  ultimately have "x # xs = map Fin (r # rs)" by simp
  then show ?case by (rule exI)
qed

lemma sum_fold: "foldl (\<lambda>a b. js_add a b) (Fin a) (map Fin rs) = Fin (a + sum_list rs)"
  by (induction rs arbitrary: a) (simp_all add: add.assoc)

lemma mean_finite:
  "rs \<noteq> [] \<Longrightarrow> calculateMean (map Fin rs) = Fin (sum_list rs / real (length rs))"
  by (simp add: calculateMean_def sum_fold)

lemma squares_fold:
  "foldl (\<lambda>a b. js_add a (js_pow (js_sub b (Fin m)) (Fin 2))) (Fin a) (map Fin rs)
     = Fin (a + (\<Sum>x\<leftarrow>rs. (x - m)\<^sup>2))"
  by (induction rs arbitrary: a) (simp_all add: js_sub_def js_pow_two add.assoc)

lemma variance_finite:
  "2 \<le> length rs \<Longrightarrow>
   calculateVariance (map Fin rs) (Fin m) = Fin ((\<Sum>x\<leftarrow>rs. (x - m)\<^sup>2) / (real (length rs) - 1))"
  by (simp add: calculateVariance_def squares_fold)

lemma squares_nonneg: "0 \<le> (\<Sum>x\<leftarrow>rs. (x - m)\<^sup>2)" for m :: real
  by (rule sum_list_nonneg) auto

lemma squares_pos:
  fixes m :: real
  assumes "x \<in> set rs" "x \<noteq> m"
  shows "0 < (\<Sum>x\<leftarrow>rs. (x - m)\<^sup>2)"
  using assms
proof (induction rs)
  case Nil
  then show ?case by simp
next
  case (Cons r rs)
  show ?case
  proof (cases "x = r")
    case True
    then have "0 < (r - m)\<^sup>2" using Cons.prems by simp
    then show ?thesis using squares_nonneg [of m rs] by (simp add: add_pos_nonneg)
  next
    case False
    then have "0 < (\<Sum>x\<leftarrow>rs. (x - m)\<^sup>2)" using Cons by simp
    moreover have "0 \<le> (r - m)\<^sup>2" by simp
    ultimately show ?thesis by (simp add: add_nonneg_pos)
  qed
qed

lemma varies_squares_pos:
  fixes m :: real
  assumes "varies (map Fin rs)"
  shows "0 < (\<Sum>x\<leftarrow>rs. (x - m)\<^sup>2)"
proof -
  from assms obtain x y where "x \<in> set rs" "y \<in> set rs" "x \<noteq> y"
    by (auto simp: varies_def)
  then have "x \<noteq> m \<or> y \<noteq> m" by auto
  then show ?thesis
    using \<open>x \<in> set rs\<close> \<open>y \<in> set rs\<close> squares_pos by blast
qed

lemma constant_squares_zero:
  assumes "\<not> varies (map Fin rs)" "rs \<noteq> []"
  shows "(\<Sum>x\<leftarrow>rs. (x - sum_list rs / real (length rs))\<^sup>2) = 0"
proof -
  from assms obtain c where c: "\<forall>x\<in>set rs. x = c"
    by (cases rs) (auto simp: varies_def)
  then have "rs = replicate (length rs) c"
    by (simp add: replicate_length_same)
  then have "sum_list rs = real (length rs) * c"
    by (metis sum_list_replicate)
  then have "sum_list rs / real (length rs) = c"
    using assms(2) by simp
  then show ?thesis
    using c by (simp cong: map_cong)
qed


lemma rvar_nonneg: "2 \<le> length rs \<Longrightarrow> 0 \<le> rvar rs"
  by (simp add: rvar_def squares_nonneg)

lemma rvar_pos: "2 \<le> length rs \<Longrightarrow> varies (map Fin rs) \<Longrightarrow> 0 < rvar rs"
  by (simp add: rvar_def varies_squares_pos)

lemma rvar_zero:
  assumes "2 \<le> length rs" "\<not> varies (map Fin rs)"
  shows "rvar rs = 0"
proof -
  have "rs \<noteq> []" using assms(1) by auto
  then show ?thesis
    using constant_squares_zero [OF assms(2)] by (simp add: rvar_def rmean_def)
qed

lemma locals_finite:
  assumes "2 \<le> length rs" "2 \<le> length ss"
  defines "A \<equiv> rvar rs / real (length rs)" and "B \<equiv> rvar ss / real (length ss)"
  defines "L \<equiv> calculateStats_locals (map Fin rs) (map Fin ss)"
  shows "l_m1 L = Fin (rmean rs)" "l_m2 L = Fin (rmean ss)"
    "l_se L = Fin (sqrt (A + B))"
    "l_t L = js_abs (js_div (Fin (rmean rs - rmean ss)) (Fin (sqrt (A + B))))"
    "l_df L = js_div (Fin ((A + B)\<^sup>2))
                (Fin (A\<^sup>2 / (real (length rs) - 1) + B\<^sup>2 / (real (length ss) - 1)))"
proof -
  have ne: "rs \<noteq> []" "ss \<noteq> []" using assms by auto
  have m: "calculateMean (map Fin rs) = Fin (rmean rs)" "calculateMean (map Fin ss) = Fin (rmean ss)"
    using ne by (simp_all add: mean_finite rmean_def)
  have v: "calculateVariance (map Fin rs) (Fin (rmean rs)) = Fin (rvar rs)"
          "calculateVariance (map Fin ss) (Fin (rmean ss)) = Fin (rvar ss)"
    using assms by (simp_all add: variance_finite rvar_def)
  have AB: "0 \<le> A" "0 \<le> B"
    using assms rvar_nonneg by (simp_all add: A_def B_def)
  have d: "js_div (Fin (rvar rs)) (Fin (real (length rs))) = Fin A"
          "js_div (Fin (rvar ss)) (Fin (real (length ss))) = Fin B"
    using ne by (simp_all add: A_def B_def)
  have n: "js_sub (Fin (real (length rs))) (Fin 1) = Fin (real (length rs) - 1)"
          "js_sub (Fin (real (length ss))) (Fin 1) = Fin (real (length ss) - 1)"
    by (simp_all add: js_sub_def)
  have n1: "real (length rs) - 1 \<noteq> 0" "real (length ss) - 1 \<noteq> 0"
    using assms by auto
  note unfold = L_def calculateStats_locals_def Let_def stats_locals.select_convs length_map m v d n
  show "l_m1 L = Fin (rmean rs)" "l_m2 L = Fin (rmean ss)"
    unfolding unfold by (rule refl)+
  show "l_se L = Fin (sqrt (A + B))"
    unfolding unfold using AB by simp
  show "l_t L = js_abs (js_div (Fin (rmean rs - rmean ss)) (Fin (sqrt (A + B))))"
    unfolding unfold using AB by (simp add: js_sub_def)
  show "l_df L = js_div (Fin ((A + B)\<^sup>2))
                (Fin (A\<^sup>2 / (real (length rs) - 1) + B\<^sup>2 / (real (length ss) - 1)))"
    unfolding unfold using n1 by (simp add: js_pow_two)
qed


lemma tail_range:
  assumes "0 < d"
  shows "\<exists>pv. js_div (Fin 1)
                (js_pow (js_add (Fin 1) (js_div (js_mul (Fin x) (Fin x)) (Fin d)))
                        (js_div (js_add (Fin d) (Fin 1)) (Fin 2))) = Fin pv
              \<and> 0 < pv \<and> pv \<le> 1 \<and> (x = 0 \<longrightarrow> pv = 1)"
proof -
  define base where "base = 1 + x * x / d"
  define ex where "ex = (d + 1) / 2"
  have base: "1 \<le> base"
    using assms by (simp add: base_def)
  have ex: "0 < ex"
    using assms by (simp add: ex_def)
  have pw: "js_pow (Fin base) (Fin ex) = Fin (base powr ex)"
    using base ex by (simp add: js_pow.simps)
  have ge: "1 \<le> base powr ex"
    using base ex by (simp add: ge_one_powr_ge_zero)
  have "js_div (Fin 1)
          (js_pow (js_add (Fin 1) (js_div (js_mul (Fin x) (Fin x)) (Fin d)))
                  (js_div (js_add (Fin d) (Fin 1)) (Fin 2))) = js_div (Fin 1) (js_pow (Fin base) (Fin ex))"
    using assms by (simp add: base_def ex_def)
  also have "\<dots> = Fin (1 / base powr ex)"
    using ge base by (simp add: pw)
  finally have eq: "js_div (Fin 1)
          (js_pow (js_add (Fin 1) (js_div (js_mul (Fin x) (Fin x)) (Fin d)))
                  (js_div (js_add (Fin d) (Fin 1)) (Fin 2))) = Fin (1 / base powr ex)" .
  have "0 < base powr ex"
    using ge by linarith
  then have "0 < 1 / base powr ex" "1 / base powr ex \<le> 1"
    using ge by (simp_all add: divide_le_eq)
  moreover have "x = 0 \<longrightarrow> 1 / base powr ex = 1"
    by (simp add: base_def)
  ultimately show ?thesis
    using eq by blast
qed

lemma locals_varied:
  assumes len: "2 \<le> length rs" "2 \<le> length ss"
    and var: "varies (map Fin rs) \<or> varies (map Fin ss)"
  defines "L \<equiv> calculateStats_locals (map Fin rs) (map Fin ss)"
  shows "\<exists>tv dv pv. l_t L = Fin tv \<and> l_df L = Fin dv \<and> l_p L = Fin pv
           \<and> 0 \<le> tv \<and> 0 < dv \<and> 0 < pv \<and> pv \<le> 1 \<and> (rmean rs = rmean ss \<longrightarrow> tv = 0 \<and> pv = 1)"
proof -
  define A where "A = rvar rs / real (length rs)"
  define B where "B = rvar ss / real (length ss)"
  define D where "D = A\<^sup>2 / (real (length rs) - 1) + B\<^sup>2 / (real (length ss) - 1)"
  have n: "0 < real (length rs)" "0 < real (length ss)"
          "0 < real (length rs) - 1" "0 < real (length ss) - 1"
    using len by auto
  have AB: "0 \<le> A" "0 \<le> B"
    using len n rvar_nonneg by (simp_all add: A_def B_def)
  have "0 < A \<or> 0 < B"
    using var rvar_pos len n by (auto simp: A_def B_def)
  then have S: "0 < A + B" and D: "0 < D"
    using AB n by (auto simp: D_def add_pos_nonneg add_nonneg_pos)
  define tv where "tv = \<bar>(rmean rs - rmean ss) / sqrt (A + B)\<bar>"
  define dv where "dv = (A + B)\<^sup>2 / D"
  have t: "l_t L = Fin tv"
    using S by (simp add: L_def locals_finite(4) [OF len] A_def [symmetric] B_def [symmetric] tv_def)
  have d: "l_df L = Fin dv"
    using D by (simp add: L_def locals_finite(5) [OF len] A_def [symmetric] B_def [symmetric]
        D_def [symmetric] dv_def)
  have dv: "0 < dv"
    using S D by (simp add: dv_def)
  obtain pv where pv: "l_p L = Fin pv" "0 < pv" "pv \<le> 1" "tv = 0 \<longrightarrow> pv = 1"
    using tail_range [OF dv, of tv] unfolding L_def l_p_eq t [unfolded L_def] d [unfolded L_def]
    by blast
  have "0 \<le> tv" "rmean rs = rmean ss \<longrightarrow> tv = 0"
    by (simp_all add: tv_def)
  then show ?thesis
    using t d pv dv by blast
qed

lemma locals_constant:
  assumes len: "2 \<le> length rs" "2 \<le> length ss"
    and const: "\<not> varies (map Fin rs)" "\<not> varies (map Fin ss)"
  defines "L \<equiv> calculateStats_locals (map Fin rs) (map Fin ss)"
  shows "l_t L = (if rmean rs = rmean ss then NaN else PInf)" "l_df L = NaN" "l_p L = NaN"
proof -
  have z: "rvar rs = 0" "rvar ss = 0"
    using len const by (simp_all add: rvar_zero)
  show t: "l_t L = (if rmean rs = rmean ss then NaN else PInf)"
    by (simp add: L_def locals_finite(4) [OF len] z)
  show d: "l_df L = NaN"
    by (simp add: L_def locals_finite(5) [OF len] z)
  show "l_p L = NaN"
    unfolding L_def l_p_eq d [unfolded L_def] by (simp add: js_pow.simps)
qed


lemma calculateStats_full:
  assumes "2 \<le> length a" "2 \<le> length b"
  shows "calculateStats a b =
           [(''t'', l_t (calculateStats_locals a b)), (''p'', l_p (calculateStats_locals a b)),
            (''m1'', l_m1 (calculateStats_locals a b)), (''m2'', l_m2 (calculateStats_locals a b))]"
proof -
  have "\<not> (length a < 2 \<or> length b < 2)"
    using assms by simp
  then show ?thesis
    by (simp add: calculateStats_def Let_def)
qed

lemma l_m_eq:
  "l_m1 (calculateStats_locals a b) = calculateMean a"
  "l_m2 (calculateStats_locals a b) = calculateMean b"
  by (simp_all add: calculateStats_locals_def Let_def)

text \<open>
  C2, as the code has it: for two samples of length at least 2 the object
  \<^verbatim>\<open>calculateStats\<close> returns has exactly the fields \<open>t\<close>, \<open>p\<close>, \<open>m1\<close>, \<open>m2\<close>, in
  this order: the t-statistic, the p-value and the two means. The degrees of freedom are
  a local constant, used for \<open>p\<close>; the object has no field for them, under the name
  \<open>df\<close> or \<open>degrees_of_freedom\<close>.
\<close>

theorem calculateStats_fields:
  assumes "2 \<le> length group_a" and "2 \<le> length group_b"
  shows "map fst (calculateStats group_a group_b) = [''t'', ''p'', ''m1'', ''m2'']
       \<and> get_prop (calculateStats group_a group_b) ''t''
           = Some (l_t (calculateStats_locals group_a group_b))
       \<and> get_prop (calculateStats group_a group_b) ''p''
           = Some (l_p (calculateStats_locals group_a group_b))
       \<and> get_prop (calculateStats group_a group_b) ''m1'' = Some (calculateMean group_a)
       \<and> get_prop (calculateStats group_a group_b) ''m2'' = Some (calculateMean group_b)
       \<and> get_prop (calculateStats group_a group_b) ''df'' = None
       \<and> get_prop (calculateStats group_a group_b) ''degrees_of_freedom'' = None"
  by (simp add: calculateStats_full [OF assms] get_prop_def l_m_eq)

theorem calculateStats_fields_witness:
  "2 \<le> length [Fin 42, Fin 43, Fin 42] \<and> 2 \<le> length [Fin 43, Fin 41]
   \<and> map fst (calculateStats [Fin 42, Fin 43, Fin 42] [Fin 43, Fin 41]) = [''t'', ''p'', ''m1'', ''m2'']
   \<and> get_prop (calculateStats [Fin 42, Fin 43, Fin 42] [Fin 43, Fin 41]) ''m2'' = Some (Fin 42)
   \<and> get_prop (calculateStats [Fin 42, Fin 43, Fin 42] [Fin 43, Fin 41]) ''df'' = None"
proof -
  have h1: "2 \<le> length [Fin 42, Fin 43, Fin 42]" and h2: "2 \<le> length [Fin 43, Fin 41]"
    by simp_all
  have "calculateMean [Fin 43, Fin 41] = Fin 42"
    by (simp add: calculateMean_def)
  then show ?thesis
    using h1 h2 calculateStats_fields [OF h1 h2] by simp
qed

theorem calculateStats_no_degrees_of_freedom:
  "2 \<le> length [Fin 1, Fin 3] \<and> 2 \<le> length [Fin 2, Fin 6]
   \<and> get_prop (calculateStats [Fin 1, Fin 3] [Fin 2, Fin 6]) ''degrees_of_freedom'' = None
   \<and> get_prop (calculateStats [Fin 1, Fin 3] [Fin 2, Fin 6]) ''df'' = None
   \<and> length (calculateStats [Fin 1, Fin 3] [Fin 2, Fin 6]) = 4"
  by (simp add: calculateStats_def get_prop_def Let_def)




text \<open>
  C5 at a constant sample: with \<^verbatim>\<open>[5, 5]\<close> as both groups the variances and the
  standard error are 0, \<open>t\<close> is \<open>|0 / 0|\<close> and the result holds NaN for the t-statistic
  and for the p-value, where the claim has 0 and 1.
\<close>

theorem calculateStats_same_constant_sample:
  "calculateStats [Fin 5, Fin 5] [Fin 5, Fin 5]
     = [(''t'', NaN), (''p'', NaN), (''m1'', Fin 5), (''m2'', Fin 5)]"
  by (simp add: calculateStats_def calculateStats_locals_def calculateMean_def
      calculateVariance_def js_sub_def Let_def js_pow.simps)

text \<open>
  What \<^verbatim>\<open>calculateStats\<close> returns for a sample of finite numbers against itself:
  \<open>t = 0\<close> and \<open>p = 1\<close> when the sample is not constant, NaN for both when it is.
\<close>

lemma calculateStats_same_sample:
  assumes "2 \<le> length s" and "list_all isFinite s"
  shows "get_prop (calculateStats s s) ''t'' = Some (if varies s then Fin 0 else NaN)
       \<and> get_prop (calculateStats s s) ''p'' = Some (if varies s then Fin 1 else NaN)"
proof -
  obtain rs where fin: "s = map Fin rs"
    using assms(2) finite_sample by blast
  have len: "2 \<le> length rs"
    using assms(1) fin by simp
  show ?thesis
  proof (cases "varies s")
    case True
    then have "varies (map Fin rs) \<or> varies (map Fin rs)"
      using fin by simp
    from locals_varied [OF len len this]
    have "l_t (calculateStats_locals s s) = Fin 0 \<and> l_p (calculateStats_locals s s) = Fin 1"
      unfolding fin by auto
    then show ?thesis
      using True by (simp add: calculateStats_full [OF assms(1) assms(1)] get_prop_def)
  next
    case False
    then have c: "\<not> varies (map Fin rs)"
      using fin by simp
    have "l_t (calculateStats_locals s s) = NaN" "l_p (calculateStats_locals s s) = NaN"
      unfolding fin using locals_constant(1,3) [OF len len c c] by simp_all
    then show ?thesis
      using False by (simp add: calculateStats_full [OF assms(1) assms(1)] get_prop_def)
  qed
qed


section \<open>Degenerate samples\<close>

text \<open>
  C3: when at least one of the two samples has fewer than two elements,
  \<^verbatim>\<open>calculateStats\<close> returns (it is a total function: nothing is divided, indexed
  or raised on this path) the object \<^verbatim>\<open>{ p: 1, t: 0 }\<close>: p-value 1 and t-statistic 0.
\<close>

theorem calculateStats_degenerate:
  assumes "length group_a < 2 \<or> length group_b < 2"
  shows "calculateStats group_a group_b = [(''p'', Fin 1), (''t'', Fin 0)]
       \<and> get_prop (calculateStats group_a group_b) ''p'' = Some (Fin 1)
       \<and> get_prop (calculateStats group_a group_b) ''t'' = Some (Fin 0)"
  using assms by (auto simp: calculateStats_def get_prop_def)

theorem calculateStats_degenerate_witness:
  "(length [Fin 42] < 2 \<or> length [Fin 1, Fin 2, Fin 3] < 2)
   \<and> calculateStats [Fin 42] [Fin 1, Fin 2, Fin 3] = [(''p'', Fin 1), (''t'', Fin 0)]
   \<and> get_prop (calculateStats [Fin 42] [Fin 1, Fin 2, Fin 3]) ''p'' = Some (Fin 1)
   \<and> get_prop (calculateStats [Fin 42] [Fin 1, Fin 2, Fin 3]) ''t'' = Some (Fin 0)"
  using calculateStats_degenerate [of "[Fin 42]" "[Fin 1, Fin 2, Fin 3]"]
  by (simp add: get_prop_def)

section \<open>Quartiles of a sample\<close>








lemma getQuartiles_store:
  "snd (getQuartiles h data) = h \<or> (\<exists>xs. snd (getQuartiles h data) = h @ [xs])"
  by (auto simp: getQuartiles_def spread_def array_sort_def Let_def split: option.splits)






text \<open>
  C10: \<^verbatim>\<open>getQuartiles\<close> leaves its input unchanged. It sorts a copy: after the call
  the caller's array holds the same elements in the same order, and so does every other
  array that existed before the call.
\<close>

theorem getQuartiles_input_unchanged:
  assumes "d < length h"
  shows "snd (getQuartiles h (Some d)) ! d = h ! d
       \<and> take (length h) (snd (getQuartiles h (Some d))) = h"
  using assms getQuartiles_store [of h "Some d"] by (auto simp: nth_append)

theorem getQuartiles_input_unchanged_witness:
  "0 < length [[Fin 4, Fin 1, Fin 3, Fin 2]]
   \<and> snd (getQuartiles [[Fin 4, Fin 1, Fin 3, Fin 2]] (Some 0)) ! 0 = [Fin 4, Fin 1, Fin 3, Fin 2]
   \<and> snd (getQuartiles [[Fin 4, Fin 1, Fin 3, Fin 2]] (Some 0))
       = [[Fin 4, Fin 1, Fin 3, Fin 2], [Fin 1, Fin 2, Fin 3, Fin 4]]"
proof -
  have h1: "0 < length [[Fin 4, Fin 1, Fin 3, Fin 2]]"
    by simp
  have v: "snd (getQuartiles [[Fin 4, Fin 1, Fin 3, Fin 2]] (Some 0))
       = [[Fin 4, Fin 1, Fin 3, Fin 2], [Fin 1, Fin 2, Fin 3, Fin 4]]"
    by (simp add: getQuartiles_def spread_def array_sort_def js_sort_def sortCompare_def
        js_sub_def getValue_def js_at_def)
  show ?thesis
    using h1 v getQuartiles_input_unchanged [OF h1] by simp
qed

text \<open>Sorting the caller's array itself would have reordered it.\<close>

lemma array_sort_in_place:
  "snd (array_sort [[Fin 4, Fin 1, Fin 3, Fin 2]] 0) ! 0 = [Fin 1, Fin 2, Fin 3, Fin 4]"
  by (simp add: array_sort_def js_sort_def sortCompare_def js_sub_def)


text \<open>
  The order of the summary needs the elements to be finite: between \<open>-\<infinity>\<close> and \<open>+\<infinity>\<close>
  the interpolation adds the two infinities, and the quartiles are NaN.
\<close>

lemma getQuartiles_infinite_elements:
  "fst (getQuartiles [[PInf, NInf]] (Some 0))
     = \<lparr>min_q = NInf, q1 = NaN, median = NaN, q3 = NaN, max_q = PInf\<rparr>"
  by (simp add: getQuartiles_def spread_def array_sort_def js_sort_def sortCompare_def
      js_sub_def getValue_def js_at_def)

section \<open>The extracted samples\<close>

lemma addData_group1:
  "group1 (addData row parsed m i j m') =
     (if m' = m then group1 (parsed m) @ contribution (parseVal (js_at row i))
      else group1 (parsed m'))"
  by (simp add: addData_def Let_def split: option.splits)

lemma addData_group2:
  "group2 (addData row parsed m i j m') =
     (if m' = m then group2 (parsed m) @ contribution (parseVal (js_at row j))
      else group2 (parsed m'))"
  by (simp add: addData_def Let_def split: option.splits)

lemma parse_line_long:
  assumes "10 \<le> length (split CHR '','' line)"
  shows "parse_line parsed line =
           addData (split CHR '','' line)
             (addData (split CHR '','' line)
               (addData (split CHR '','' line)
                 (addData (split CHR '','' line)
                   (addData (split CHR '','' line) parsed Ball_Size 1 2)
                   Ball_Thickness 3 4)
                 Loop_Height 5 6)
               Edge_Height 7 8)
             BPT 10 11"
proof -
  have "\<not> length (split CHR '','' line) < 10"
    using assms by simp
  then show ?thesis
    by (simp add: parse_line_def Let_def)
qed

lemma parse_line_short:
  "length (split CHR '','' line) < 10 \<Longrightarrow> parse_line parsed line = parsed"
  by (simp add: parse_line_def Let_def)

lemma contribution_parseVal:
  "contribution (parseVal field) =
     (if isNaN (parseFloat (toString field)) then [] else [parseFloat (toString field)])"
  by (simp add: parseVal_def Let_def)

lemma parseFloat_empty: "parseFloat '''' = NaN"
  by (simp add: parseFloat_def)

text \<open>
  C8: for a row of at least 10 comma-separated fields, every metric gets, in its first
  sample, what column A of the metric contributes and, in its second sample, what column
  B contributes, each on its own: a field contributes its number when
  \<^verbatim>\<open>parseFloat\<close> gives one and nothing when \<^verbatim>\<open>parseFloat\<close> gives NaN, as it does
  for the empty string. Whether one field parses has no effect on the other column of the
  metric or on the other metrics.
\<close>

theorem parse_line_columns_independent:
  assumes "10 \<le> length (split CHR '','' line)"
  shows "group1 (parse_line parsed line m)
           = group1 (parsed m) @ contribution (parseVal (js_at (split CHR '','' line) (columnA m)))
       \<and> group2 (parse_line parsed line m)
           = group2 (parsed m) @ contribution (parseVal (js_at (split CHR '','' line) (columnB m)))
       \<and> contribution (parseVal field)
           = (if isNaN (parseFloat (toString field)) then [] else [parseFloat (toString field)])
       \<and> contribution (parseVal (Some '''')) = []"
proof -
  have "group1 (parse_line parsed line m)
           = group1 (parsed m) @ contribution (parseVal (js_at (split CHR '','' line) (columnA m)))"
    unfolding parse_line_long [OF assms] by (cases m) (simp_all add: addData_group1)
  moreover have "group2 (parse_line parsed line m)
           = group2 (parsed m) @ contribution (parseVal (js_at (split CHR '','' line) (columnB m)))"
    unfolding parse_line_long [OF assms] by (cases m) (simp_all add: addData_group2)
  moreover have "contribution (parseVal (Some '''')) = []"
    by (simp add: contribution_parseVal parseFloat_empty)
  ultimately show ?thesis
    using contribution_parseVal by blast
qed

lemmas parse_eval = parseVal_def parseFloat_def strUnsignedDecimalLiteral_def isWhiteSpace_def
  isDigit_def digitsValue_def digitValue_def exponentPart_def signedInteger_def scale10_def
  js_at_def

theorem parse_line_columns_independent_witness:
  "10 \<le> length (split CHR '','' '',42,,9,8,46,44,41,41,,4.309,4.433'')
   \<and> group1 (parse_line initial_parsed '',42,,9,8,46,44,41,41,,4.309,4.433'' Ball_Size) = [Fin 42]
   \<and> group2 (parse_line initial_parsed '',42,,9,8,46,44,41,41,,4.309,4.433'' Ball_Size) = []"
proof -
  have h: "10 \<le> length (split CHR '','' '',42,,9,8,46,44,41,41,,4.309,4.433'')"
    by simp
  have a: "contribution (parseVal (js_at (split CHR '','' '',42,,9,8,46,44,41,41,,4.309,4.433'')
              (columnA Ball_Size))) = [Fin 42]"
    by (simp add: parse_eval)
  have b: "contribution (parseVal (js_at (split CHR '','' '',42,,9,8,46,44,41,41,,4.309,4.433'')
              (columnB Ball_Size))) = []"
    by (simp add: parse_eval)
  have i: "group1 (initial_parsed Ball_Size) = []" "group2 (initial_parsed Ball_Size) = []"
    by (simp_all add: initial_parsed_def)
  show ?thesis
    using h parse_line_columns_independent [OF h, of initial_parsed Ball_Size]
    unfolding a b i by simp
qed


lemma contribution_not_NaN: "\<forall>x \<in> set (contribution (parseVal field)). \<not> isNaN x"
  by (simp add: contribution_parseVal)

lemma addData_no_NaN:
  assumes "\<forall>m. \<forall>x \<in> set (group1 (parsed m)) \<union> set (group2 (parsed m)). \<not> isNaN x"
  shows "\<forall>m. \<forall>x \<in> set (group1 (addData row parsed k i j m))
                    \<union> set (group2 (addData row parsed k i j m)). \<not> isNaN x"
  using assms contribution_not_NaN by (auto simp: addData_group1 addData_group2)

lemma parse_line_no_NaN:
  assumes "\<forall>m. \<forall>x \<in> set (group1 (parsed m)) \<union> set (group2 (parsed m)). \<not> isNaN x"
  shows "\<forall>m. \<forall>x \<in> set (group1 (parse_line parsed line m))
                    \<union> set (group2 (parse_line parsed line m)). \<not> isNaN x"
proof (cases "length (split CHR '','' line) < 10")
  case True
  then show ?thesis
    using assms by (simp only: parse_line_short)
next
  case False
  then have long: "10 \<le> length (split CHR '','' line)"
    by simp
  show ?thesis
    unfolding parse_line_long [OF long] by (intro addData_no_NaN assms)
qed

lemma foldl_parse_line_no_NaN:
  assumes "\<forall>m. \<forall>x \<in> set (group1 (parsed m)) \<union> set (group2 (parsed m)). \<not> isNaN x"
  shows "\<forall>m. \<forall>x \<in> set (group1 (foldl parse_line parsed ls m))
                    \<union> set (group2 (foldl parse_line parsed ls m)). \<not> isNaN x"
  using assms
proof (induction ls arbitrary: parsed)
  case Nil
  then show ?case by simp
next
  case (Cons l ls)
  show ?case
    unfolding foldl_Cons by (rule Cons.IH, rule parse_line_no_NaN, rule Cons.prems)
qed

text \<open>
  C9, as the code has it: for every input text, no element of a sample that
  \<^verbatim>\<open>parseCSV\<close> produces is NaN. (An element can be an infinity: \<^verbatim>\<open>parseVal\<close>
  tests \<^verbatim>\<open>isNaN\<close> only, and \<^verbatim>\<open>parseFloat\<close> reads the field \<^verbatim>\<open>Infinity\<close> as
  the number \<open>+\<infinity>\<close>.)
\<close>

theorem parseCSV_no_NaN:
  "\<forall>x \<in> set (group1 (parseCSV csvText m)) \<union> set (group2 (parseCSV csvText m)). \<not> isNaN x"
proof -
  have "\<forall>m. \<forall>x \<in> set (group1 (initial_parsed m)) \<union> set (group2 (initial_parsed m)). \<not> isNaN x"
    by (simp add: initial_parsed_def split: metric.splits)
  then show ?thesis
    unfolding parseCSV_def using foldl_parse_line_no_NaN by blast
qed

theorem parseCSV_no_NaN_witness:
  "group1 (parseCSV ''\<newline>\<newline>\<newline>\<newline>\<newline>,42,x,9,8,46,44,41,41,,4.309,4.433'' Ball_Size) = [Fin 42]
   \<and> group2 (parseCSV ''\<newline>\<newline>\<newline>\<newline>\<newline>,42,x,9,8,46,44,41,41,,4.309,4.433'' Ball_Size) = []
   \<and> \<not> isNaN (hd (group1 (parseCSV ''\<newline>\<newline>\<newline>\<newline>\<newline>,42,x,9,8,46,44,41,41,,4.309,4.433'' Ball_Size)))"
proof -
  have v: "parseCSV ''\<newline>\<newline>\<newline>\<newline>\<newline>,42,x,9,8,46,44,41,41,,4.309,4.433'' Ball_Size
             = \<lparr>group1 = [Fin 42], group2 = [], unit_of = ''um''\<rparr>"
    by (simp add: parseCSV_def parse_line_def addData_def initial_parsed_def parse_eval)
  have g: "group1 (parseCSV ''\<newline>\<newline>\<newline>\<newline>\<newline>,42,x,9,8,46,44,41,41,,4.309,4.433'' Ball_Size) = [Fin 42]"
    "group2 (parseCSV ''\<newline>\<newline>\<newline>\<newline>\<newline>,42,x,9,8,46,44,41,41,,4.309,4.433'' Ball_Size) = []"
    by (simp_all only: v metric_data.select_convs)
  have "hd (group1 (parseCSV ''\<newline>\<newline>\<newline>\<newline>\<newline>,42,x,9,8,46,44,41,41,,4.309,4.433'' Ball_Size))
          \<in> set (group1 (parseCSV ''\<newline>\<newline>\<newline>\<newline>\<newline>,42,x,9,8,46,44,41,41,,4.309,4.433'' Ball_Size))
            \<union> set (group2 (parseCSV ''\<newline>\<newline>\<newline>\<newline>\<newline>,42,x,9,8,46,44,41,41,,4.309,4.433'' Ball_Size))"
    by (simp only: g) simp
  then have "\<not> isNaN (hd (group1 (parseCSV ''\<newline>\<newline>\<newline>\<newline>\<newline>,42,x,9,8,46,44,41,41,,4.309,4.433'' Ball_Size)))"
    by (rule parseCSV_no_NaN [rule_format])
  then show ?thesis
    using g by blast
qed

theorem parseCSV_infinite_element:
  "group1 (parseCSV ''\<newline>\<newline>\<newline>\<newline>\<newline>,Infinity,43,9,8,46,44,41,41,,4.309,4.433'' Ball_Size) = [PInf]
   \<and> \<not> isFinite PInf"
  by (simp add: parseCSV_def parse_line_def addData_def initial_parsed_def parse_eval)


end
